theory Spec2Isabelle
  imports Complex_Main "HOL-Library.Sublist"
begin

section \<open>Floating-point values and the numpy reductions used by validate.py\<close>

text \<open>
  A Python float is a finite value, an infinity or NaN. Comparisons, \<open>isfinite\<close> and
  \<open>max\<close> behave as IEEE 754 prescribes (every comparison with NaN is false, NaN
  propagates through \<open>max\<close>). Arithmetic on finite values is exact here: the rounding
  and the overflow of binary64 are not part of the model.
\<close>

datatype pyfloat = Fin real | PInf | NInf | NaN

fun isfinite :: "pyfloat \<Rightarrow> bool" where
  "isfinite (Fin _) = True"
| "isfinite _ = False"

fun fle :: "pyfloat \<Rightarrow> pyfloat \<Rightarrow> bool" where
  "fle NaN _ = False"
| "fle _ NaN = False"
| "fle NInf _ = True"
| "fle _ PInf = True"
| "fle (Fin a) (Fin b) = (a \<le> b)"
| "fle _ _ = False"

fun flt :: "pyfloat \<Rightarrow> pyfloat \<Rightarrow> bool" where
  "flt NaN _ = False"
| "flt _ NaN = False"
| "flt PInf _ = False"
| "flt _ NInf = False"
| "flt (Fin a) (Fin b) = (a < b)"
| "flt _ _ = True"

fun fadd :: "pyfloat \<Rightarrow> pyfloat \<Rightarrow> pyfloat" where
  "fadd NaN _ = NaN"
| "fadd _ NaN = NaN"
| "fadd PInf NInf = NaN"
| "fadd NInf PInf = NaN"
| "fadd PInf _ = PInf"
| "fadd _ PInf = PInf"
| "fadd NInf _ = NInf"
| "fadd _ NInf = NInf"
| "fadd (Fin a) (Fin b) = Fin (a + b)"

text \<open>Division of a float by an element count (\<open>0 / 0\<close> is NaN, as in numpy).\<close>

fun fdivn :: "pyfloat \<Rightarrow> nat \<Rightarrow> pyfloat" where
  "fdivn NaN _ = NaN"
| "fdivn (Fin a) n = (if n = 0 then (if a = 0 then NaN else if 0 < a then PInf else NInf)
                      else Fin (a / real n))"
| "fdivn PInf _ = PInf"
| "fdivn NInf _ = NInf"

text \<open>The product \<open>1000 * x\<close> of an integer constant and a float.\<close>

fun fscale :: "int \<Rightarrow> pyfloat \<Rightarrow> pyfloat" where
  "fscale k (Fin a) = Fin (real_of_int k * a)"
| "fscale k NaN = NaN"
| "fscale k PInf = (if k = 0 then NaN else if 0 < k then PInf else NInf)"
| "fscale k NInf = (if k = 0 then NaN else if 0 < k then NInf else PInf)"

datatype exn =
    IndexError
  | KeyError string
  | ValueError
  | SchemaLookupError string
  | MetricComputationError string
  | ExternalError string

text \<open>\<open>np.mean\<close>: the sum divided by the count; NaN on an empty array.\<close>

definition np_mean :: "pyfloat list \<Rightarrow> pyfloat" where
  "np_mean xs = fdivn (foldl fadd (Fin 0) xs) (length xs)"

text \<open>\<open>np.max\<close>: raises ValueError on an empty array; NaN wins over every value.\<close>

fun fmax :: "pyfloat \<Rightarrow> pyfloat \<Rightarrow> pyfloat" where
  "fmax NaN _ = NaN"
| "fmax _ NaN = NaN"
| "fmax a b = (if fle a b then b else a)"

fun np_max :: "pyfloat list \<Rightarrow> exn + pyfloat" where
  "np_max [] = Inl ValueError"
| "np_max (x # xs) = Inr (foldl fmax x xs)"

text \<open>\<open>np.std\<close> (population standard deviation, \<open>ddof = 0\<close>): NaN unless the
  array is non-empty and all finite.\<close>

fun fval :: "pyfloat \<Rightarrow> real" where
  "fval (Fin a) = a"
| "fval _ = 0"

definition np_std :: "pyfloat list \<Rightarrow> pyfloat" where
  "np_std xs =
     (if xs \<noteq> [] \<and> list_all isfinite xs then
        (let n = real (length xs);
             m = sum_list (map fval xs) / n
         in Fin (sqrt (sum_list (map (\<lambda>x. (fval x - m)\<^sup>2) xs) / n)))
      else NaN)"

text \<open>\<open>np.median\<close>: NaN on an empty array or when a NaN is present; otherwise the
  middle element of the sorted array, or the mean of the two middle elements.\<close>

fun finsert :: "pyfloat \<Rightarrow> pyfloat list \<Rightarrow> pyfloat list" where
  "finsert x [] = [x]"
| "finsert x (y # ys) = (if fle x y then x # y # ys else y # finsert x ys)"

definition fsort :: "pyfloat list \<Rightarrow> pyfloat list" where
  "fsort xs = foldr finsert xs []"

definition np_median :: "pyfloat list \<Rightarrow> pyfloat" where
  "np_median xs =
     (if xs = [] \<or> list_ex (\<lambda>x. x = NaN) xs then NaN
      else (let s = fsort xs; n = length xs
            in if even n then np_mean [s ! (n div 2 - 1), s ! (n div 2)]
               else s ! (n div 2)))"

section \<open>Detections, catalogs and the GroupView\<close>

text \<open>
  One record of the matched catalog (a \<open>SimpleRecord\<close> of the schema built in
  \<open>loadAndMatchData\<close>): the fields that validate.py reads or writes.
\<close>

record detection =
  object :: int
  coord_ra :: pyfloat
  coord_dec :: pyfloat
  base_PixelFlags_flag_saturated :: bool
  base_PixelFlags_flag_cr :: bool
  base_PixelFlags_flag_bad :: bool
  base_PixelFlags_flag_edge :: bool
  base_PsfFlux_flux :: pyfloat
  base_PsfFlux_fluxSigma :: pyfloat
  base_PsfFlux_mag :: pyfloat
  base_PsfFlux_magerr :: pyfloat
  base_ClassificationExtendedness_value :: pyfloat

type_synonym catalog = "detection list"

text \<open>
  \<open>afw.table.GroupView\<close>: the schema (its field names) and the groups in the order of
  their identifiers, each group with its member records.
\<close>

record groupView =
  schema :: "string list"
  entries :: "(int \<times> catalog) list"

text \<open>\<open>schema.find(name)\<close> fails when the schema has no field of that name.\<close>

definition schema_find :: "groupView \<Rightarrow> string \<Rightarrow> exn + string" where
  "schema_find gv name = (if name \<in> set (schema gv) then Inr name else Inl (SchemaLookupError name))"

text \<open>
  \<open>GroupView.where(predicate)\<close>: the predicate is called on every group in order (an
  exception it raises ends the call); the groups on which it is true are kept, in order.
\<close>

fun where_entries :: "(catalog \<Rightarrow> exn + bool) \<Rightarrow> (int \<times> catalog) list \<Rightarrow> exn + (int \<times> catalog) list" where
  "where_entries p [] = Inr []"
| "where_entries p (g # gs) =
     (case p (snd g) of
        Inl e \<Rightarrow> Inl e
      | Inr b \<Rightarrow> (case where_entries p gs of
                   Inl e \<Rightarrow> Inl e
                 | Inr r \<Rightarrow> Inr (if b then g # r else r)))"

definition where_gv :: "groupView \<Rightarrow> (catalog \<Rightarrow> exn + bool) \<Rightarrow> exn + groupView" where
  "where_gv gv p =
     (case where_entries p (entries gv) of
        Inl e \<Rightarrow> Inl e
      | Inr r \<Rightarrow> Inr (gv\<lparr>entries := r\<rparr>))"

text \<open>\<open>GroupView.aggregate(function)\<close>: one value per group, in order.\<close>

definition aggregate :: "groupView \<Rightarrow> (catalog \<Rightarrow> pyfloat) \<Rightarrow> pyfloat list" where
  "aggregate gv f = map (\<lambda>g. f (snd g)) (entries gv)"

section \<open>analyzeData\<close>

definition flagKeys :: "(detection \<Rightarrow> bool) list" where
  "flagKeys = [base_PixelFlags_flag_saturated, base_PixelFlags_flag_cr,
               base_PixelFlags_flag_bad, base_PixelFlags_flag_edge]"

definition flagNames :: "string list" where
  "flagNames = [''base_PixelFlags_flag_saturated'', ''base_PixelFlags_flag_cr'',
                ''base_PixelFlags_flag_bad'', ''base_PixelFlags_flag_edge'']"

definition nMatchesRequired :: nat where
  "nMatchesRequired = 2"

definition goodFilter :: "catalog \<Rightarrow> bool" where
  "goodFilter cat =
     (if length cat < nMatchesRequired then False
      else if list_ex (\<lambda>flagKey. list_ex flagKey cat) flagKeys then False
      else if \<not> list_all isfinite (map base_PsfFlux_mag cat) then False
      else True)"

definition safeMaxExtended :: pyfloat where
  "safeMaxExtended = Fin 1.0"

definition safeFilter :: "pyfloat \<Rightarrow> catalog \<Rightarrow> exn + bool" where
  "safeFilter safeMaxMag cat =
     (let psfMag = np_mean (map base_PsfFlux_mag cat)
      in case np_max (map base_ClassificationExtendedness_value cat) of
           Inl e \<Rightarrow> Inl e
         | Inr extended \<Rightarrow> Inr (fle psfMag safeMaxMag \<and> flt extended safeMaxExtended))"

record info_struct =
  mag :: "pyfloat list"
  magerr :: "pyfloat list"
  magrms :: "pyfloat list"
  dist :: "pyfloat list"
  match :: nat

text \<open>The schema lookups at the head of \<open>analyzeData\<close>, in the order of the source.\<close>

fun find_all :: "groupView \<Rightarrow> string list \<Rightarrow> exn + unit" where
  "find_all gv [] = Inr ()"
| "find_all gv (n # ns) =
     (case schema_find gv n of Inl e \<Rightarrow> Inl e | Inr _ \<Rightarrow> find_all gv ns)"

text \<open>A parameter with a default value: \<open>None\<close> is the absent argument.\<close>

definition arg_or_default :: "'a option \<Rightarrow> 'a \<Rightarrow> 'a" where
  "arg_or_default a d = (case a of None \<Rightarrow> d | Some v \<Rightarrow> v)"

definition analyzeData_default_good_mag_limit :: pyfloat where
  "analyzeData_default_good_mag_limit = Fin 19.5"

definition analyzeData_fields :: "string list" where
  "analyzeData_fields =
     flagNames @ [''base_PsfFlux_mag'', ''base_PsfFlux_magerr'',
                  ''base_ClassificationExtendedness_value'']"

text \<open>
  \<open>positionRms\<close> lives in the module \<open>check\<close>; it is a parameter here.
\<close>

definition analyzeData ::
  "(catalog \<Rightarrow> pyfloat) \<Rightarrow> groupView \<Rightarrow> pyfloat option \<Rightarrow> exn + (info_struct \<times> groupView)" where
  "analyzeData positionRms allMatches good_mag_limit_arg =
     (let good_mag_limit = arg_or_default good_mag_limit_arg analyzeData_default_good_mag_limit
      in case find_all allMatches analyzeData_fields of
           Inl e \<Rightarrow> Inl e
         | Inr _ \<Rightarrow>
          (case where_gv allMatches (\<lambda>cat. Inr (goodFilter cat)) of
             Inl e \<Rightarrow> Inl e
           | Inr goodMatches \<Rightarrow>
            (case where_gv goodMatches (safeFilter good_mag_limit) of
               Inl e \<Rightarrow> Inl e
             | Inr safeMatches \<Rightarrow>
                (let goodPsfMag = aggregate goodMatches (\<lambda>cat. np_mean (map base_PsfFlux_mag cat));
                     goodPsfMagRms = aggregate goodMatches (\<lambda>cat. np_std (map base_PsfFlux_mag cat));
                     goodPsfMagErr = aggregate goodMatches (\<lambda>cat. np_median (map base_PsfFlux_magerr cat));
                     dist = aggregate goodMatches positionRms
                 in Inr (\<lparr>mag = goodPsfMag, magerr = goodPsfMagErr, magrms = goodPsfMagRms,
                           dist = dist, match = length dist\<rparr>, safeMatches)))))"

section \<open>Effects: a trace of external calls and errors as values\<close>

text \<open>
  \<open>loadAndMatchData\<close> and \<open>run\<close> talk to the data repository (the butler), to the
  catalog matcher and to the checking, plotting and printing modules. A computation returns
  the list of external calls it made, in order, and either the exception that ended it or
  its value. There is no handler anywhere in validate.py, so the only combinator is the
  sequencing that stops at the first exception.
\<close>

type_synonym dataId = "(string \<times> int) list"

datatype angle_unit = radians | degrees | arcminutes | arcseconds

datatype angle = Angle real angle_unit

record calexp_md =
  FLUXMAG0 :: pyfloat
  FLUXMAG0ERR :: pyfloat

text \<open>The \<open>MultiMatch\<close> object: what it was built with and the catalogs added so far.\<close>

record matcher =
  mm_schema :: "string list"
  mm_dataIdFormat :: "string list"
  mm_radius :: angle
  mm_added :: "(catalog \<times> dataId) list"

text \<open>The arguments of the calls that \<open>run\<close> makes into the other modules.\<close>

datatype am_args = AmArgs "pyfloat list"

datatype call =
    CheckAstrometry "pyfloat list" "pyfloat list" "pyfloat list" nat pyfloat pyfloat int
  | CheckPhotometry "pyfloat list" "pyfloat list" "pyfloat list" nat pyfloat pyfloat int
  | PlotAstrometry "pyfloat list" "pyfloat list" "pyfloat list" "pyfloat list" nat pyfloat string
  | PlotPhotometry "pyfloat list" "pyfloat list" "pyfloat list" "pyfloat list" nat pyfloat string
  | PrintPA1 groupView string
  | PlotPA1 groupView string string
  | PrintPA2 groupView string
  | PrintAM1 am_args
  | PlotAM1 am_args
  | PrintAM2 am_args
  | PlotAM2 am_args

datatype event =
    ButlerOpen string
  | ButlerGet string "dataId option"
  | Print nat int
  | MultiMatchAdd dataId
  | MultiMatchFinish matcher
  | CalcAM1 groupView
  | CalcAM2 groupView
  | Call call

type_synonym ('e, 'a) io = "'e list \<times> (exn + 'a)"

definition io_return :: "'a \<Rightarrow> ('e, 'a) io" where
  "io_return x = ([], Inr x)"

definition io_raise :: "exn \<Rightarrow> ('e, 'a) io" where
  "io_raise e = ([], Inl e)"

definition io_lift :: "exn + 'a \<Rightarrow> ('e, 'a) io" where
  "io_lift r = ([], r)"

text \<open>An external call: it is recorded, and it returns or raises.\<close>

definition io_call :: "'e \<Rightarrow> exn + 'a \<Rightarrow> ('e, 'a) io" where
  "io_call ev r = ([ev], r)"

definition io_bind :: "('e, 'a) io \<Rightarrow> ('a \<Rightarrow> ('e, 'b) io) \<Rightarrow> ('e, 'b) io" where
  "io_bind m f =
     (case snd m of
        Inl e \<Rightarrow> (fst m, Inl e)
      | Inr x \<Rightarrow> (fst m @ fst (f x), snd (f x)))"

section \<open>The external collaborators\<close>

text \<open>
  A butler opened on a repository: its three kinds of \<open>get\<close>.
\<close>

record butler =
  get_src_schema :: "exn + string list"
  get_calexp_md :: "dataId \<Rightarrow> exn + calexp_md"
  get_src :: "dataId \<Rightarrow> exn + catalog"

text \<open>
  What validate.py imports: the butler constructor, the calibration's flux-to-magnitude
  transform (with throwing on negative flux switched off it returns a value for every
  input), the matcher, \<open>GroupView.build\<close>, and from the sibling modules \<open>util\<close>,
  \<open>check\<close>, \<open>calcSrd\<close>, \<open>plot\<close> and \<open>print\<close> the functions that \<open>run\<close> calls.
  They are parameters of the model.
\<close>

record world =
  w_Butler :: "string \<Rightarrow> exn + butler"
  w_getCcdKeyName :: "dataId \<Rightarrow> string"
  w_getMagnitude :: "calexp_md \<Rightarrow> pyfloat \<Rightarrow> pyfloat \<Rightarrow> pyfloat \<times> pyfloat"
  w_MultiMatch_add :: "matcher \<Rightarrow> catalog \<Rightarrow> dataId \<Rightarrow> exn + unit"
  w_MultiMatch_finish :: "matcher \<Rightarrow> exn + catalog"
  w_GroupView_build :: "string list \<Rightarrow> catalog \<Rightarrow> exn + groupView"
  w_positionRms :: "catalog \<Rightarrow> pyfloat"
  w_repoNameToPrefix :: "string \<Rightarrow> string"
  w_calcAM1 :: "groupView \<Rightarrow> exn + am_args"
  w_calcAM2 :: "groupView \<Rightarrow> exn + am_args"
  w_downstream :: "call \<Rightarrow> exn + unit"

section \<open>loadAndMatchData\<close>

definition default_matchRadius :: angle where
  "default_matchRadius = Angle 1 arcseconds"

text \<open>
  The magnitude columns of the temporary catalog: every record of \<open>oldSrc\<close> copied
  through the mapper, with the magnitude and its uncertainty computed from the flux and its
  uncertainty.
\<close>

definition withMagnitudes :: "world \<Rightarrow> calexp_md \<Rightarrow> catalog \<Rightarrow> catalog" where
  "withMagnitudes w md oldSrc =
     map (\<lambda>r. r\<lparr>base_PsfFlux_mag :=
                   fst (w_getMagnitude w md (base_PsfFlux_flux r) (base_PsfFlux_fluxSigma r)),
                base_PsfFlux_magerr :=
                   snd (w_getMagnitude w md (base_PsfFlux_flux r) (base_PsfFlux_fluxSigma r))\<rparr>)
         oldSrc"

text \<open>The body of the loop over \<open>visitDataIds\<close>; the state is \<open>srcVis\<close> and \<open>mmatch\<close>.\<close>

definition loadVisit ::
  "world \<Rightarrow> butler \<Rightarrow> string \<Rightarrow> catalog \<times> matcher \<Rightarrow> dataId \<Rightarrow> (event, catalog \<times> matcher) io" where
  "loadVisit w b ccdKeyName st vId =
     io_bind (io_call (ButlerGet ''calexp_md'' (Some vId)) (get_calexp_md b vId)) (\<lambda>md.
     io_bind (io_call (ButlerGet ''src'' (Some vId)) (get_src b vId)) (\<lambda>oldSrc.
     io_bind (case map_of vId ccdKeyName of
                None \<Rightarrow> io_raise (KeyError ccdKeyName)
              | Some ccd \<Rightarrow> io_call (Print (length oldSrc) ccd) (Inr ())) (\<lambda>_.
     let tmpCat = withMagnitudes w md oldSrc;
         srcVis = fst st @ tmpCat
     in io_bind (io_call (MultiMatchAdd vId) (w_MultiMatch_add w (snd st) tmpCat vId)) (\<lambda>_.
        io_return (srcVis, (snd st)\<lparr>mm_added := mm_added (snd st) @ [(tmpCat, vId)]\<rparr>)))))"

fun loadVisits ::
  "world \<Rightarrow> butler \<Rightarrow> string \<Rightarrow> catalog \<times> matcher \<Rightarrow> dataId list \<Rightarrow> (event, catalog \<times> matcher) io" where
  "loadVisits w b ccdKeyName st [] = io_return st"
| "loadVisits w b ccdKeyName st (vId # rest) =
     io_bind (loadVisit w b ccdKeyName st vId) (\<lambda>st'. loadVisits w b ccdKeyName st' rest)"

text \<open>
  The state before the loop: the empty \<open>srcVis\<close> and the \<open>MultiMatch\<close> object built
  on the output schema of the mapper (the source schema and the two magnitude fields).
\<close>

definition newSchema :: "string list \<Rightarrow> string list" where
  "newSchema sch = sch @ [''base_PsfFlux_mag'', ''base_PsfFlux_magerr'']"

definition initial_state :: "string list \<Rightarrow> string \<Rightarrow> angle \<Rightarrow> catalog \<times> matcher" where
  "initial_state sch ccdKeyName matchRadius =
     ([], \<lparr>mm_schema = newSchema sch, mm_dataIdFormat = [''visit'', ccdKeyName],
            mm_radius = matchRadius, mm_added = []\<rparr>)"

definition loadAndMatchData :: "world \<Rightarrow> string \<Rightarrow> dataId list \<Rightarrow> angle option \<Rightarrow> (event, groupView) io" where
  "loadAndMatchData w repo visitDataIds matchRadius_arg =
     (let matchRadius = arg_or_default matchRadius_arg default_matchRadius
      in io_bind (io_call (ButlerOpen repo) (w_Butler w repo)) (\<lambda>b.
         io_bind (case visitDataIds of
                    [] \<Rightarrow> io_raise IndexError
                  | vId0 # _ \<Rightarrow> io_return (w_getCcdKeyName w vId0)) (\<lambda>ccdKeyName.
         io_bind (io_call (ButlerGet ''src_schema'' None) (get_src_schema b)) (\<lambda>sch.
         io_bind (loadVisits w b ccdKeyName (initial_state sch ccdKeyName matchRadius) visitDataIds)
           (\<lambda>st.
         io_bind (io_call (MultiMatchFinish (snd st)) (w_MultiMatch_finish w (snd st))) (\<lambda>matchCat.
         io_lift (w_GroupView_build w (newSchema sch) matchCat)))))))"

section \<open>run\<close>

definition run_default_good_mag_limit :: pyfloat where
  "run_default_good_mag_limit = Fin 21.0"

definition run_default_medianAstromscatterRef :: pyfloat where
  "run_default_medianAstromscatterRef = Fin 25"

definition run_default_medianPhotoscatterRef :: pyfloat where
  "run_default_medianPhotoscatterRef = Fin 25"

definition run_default_matchRef :: int where
  "run_default_matchRef = 500"

definition invoke :: "world \<Rightarrow> call \<Rightarrow> (event, unit) io" where
  "invoke w c = io_call (Call c) (w_downstream w c)"

definition run ::
  "world \<Rightarrow> string \<Rightarrow> dataId list \<Rightarrow> pyfloat option \<Rightarrow> pyfloat option \<Rightarrow> pyfloat option
     \<Rightarrow> int option \<Rightarrow> (event, unit) io" where
  "run w repo visitDataIds good_mag_limit_arg medianAstromscatterRef_arg
       medianPhotoscatterRef_arg matchRef_arg =
     (let good_mag_limit = arg_or_default good_mag_limit_arg run_default_good_mag_limit;
          medianAstromscatterRef =
            arg_or_default medianAstromscatterRef_arg run_default_medianAstromscatterRef;
          medianPhotoscatterRef =
            arg_or_default medianPhotoscatterRef_arg run_default_medianPhotoscatterRef;
          matchRef = arg_or_default matchRef_arg run_default_matchRef;
          plotbase = w_repoNameToPrefix w repo
      in io_bind (loadAndMatchData w repo visitDataIds None) (\<lambda>allMatches.
         io_bind (io_lift (analyzeData (w_positionRms w) allMatches (Some good_mag_limit))) (\<lambda>r.
         let struct = fst r; safeMatches = snd r;
             magavg = mag struct;
             magerr = magerr struct;
             magrms = magrms struct;
             dist = dist struct;
             match = match struct;
             mmagerr = map (fscale 1000) magerr;
             mmagrms = map (fscale 1000) magrms
         in io_bind (invoke w (CheckAstrometry magavg mmagrms dist match good_mag_limit
                                  medianAstromscatterRef matchRef)) (\<lambda>_.
            io_bind (invoke w (CheckPhotometry magavg mmagrms dist match good_mag_limit
                                  medianPhotoscatterRef matchRef)) (\<lambda>_.
            io_bind (invoke w (PlotAstrometry magavg mmagerr mmagrms dist match good_mag_limit
                                  plotbase)) (\<lambda>_.
            io_bind (invoke w (PlotPhotometry magavg mmagerr mmagrms dist match good_mag_limit
                                  plotbase)) (\<lambda>_.
            io_bind (io_lift (schema_find allMatches ''base_PsfFlux_mag'')) (\<lambda>magKey.
            io_bind (invoke w (PrintPA1 safeMatches magKey)) (\<lambda>_.
            io_bind (invoke w (PlotPA1 safeMatches magKey plotbase)) (\<lambda>_.
            io_bind (invoke w (PrintPA2 safeMatches magKey)) (\<lambda>_.
            io_bind (io_call (CalcAM1 safeMatches) (w_calcAM1 w safeMatches)) (\<lambda>args.
            io_bind (invoke w (PrintAM1 args)) (\<lambda>_.
            io_bind (invoke w (PlotAM1 args)) (\<lambda>_.
            io_bind (io_call (CalcAM2 safeMatches) (w_calcAM2 w safeMatches)) (\<lambda>args.
            io_bind (invoke w (PrintAM2 args)) (\<lambda>_.
            invoke w (PlotAM2 args)))))))))))))))))"

section \<open>What \<open>run\<close> does after \<open>analyzeData\<close>, as a list\<close>

text \<open>
  The external calls of \<open>run\<close> that follow \<open>analyzeData\<close>, in the order of the source,
  when each of them returns: \<open>s\<close> is the summary and \<open>safeMatches\<close> the safe groups that
  \<open>analyzeData\<close> returned, \<open>args1\<close> and \<open>args2\<close> are what \<open>calcAM1\<close> and \<open>calcAM2\<close>
  return. The theorems below compare the trace of \<open>run\<close> with this list.
\<close>

definition mmag :: "pyfloat list \<Rightarrow> pyfloat list" where
  "mmag xs = map (fscale 1000) xs"

definition downstream_events ::
  "info_struct \<Rightarrow> groupView \<Rightarrow> pyfloat \<Rightarrow> pyfloat \<Rightarrow> pyfloat \<Rightarrow> int \<Rightarrow> string
     \<Rightarrow> am_args \<Rightarrow> am_args \<Rightarrow> event list" where
  "downstream_events s safeMatches good_mag_limit medianAstromscatterRef medianPhotoscatterRef
       matchRef plotbase args1 args2 =
     [Call (CheckAstrometry (mag s) (mmag (magrms s)) (dist s) (match s) good_mag_limit
              medianAstromscatterRef matchRef),
      Call (CheckPhotometry (mag s) (mmag (magrms s)) (dist s) (match s) good_mag_limit
              medianPhotoscatterRef matchRef),
      Call (PlotAstrometry (mag s) (mmag (magerr s)) (mmag (magrms s)) (dist s) (match s)
              good_mag_limit plotbase),
      Call (PlotPhotometry (mag s) (mmag (magerr s)) (mmag (magrms s)) (dist s) (match s)
              good_mag_limit plotbase),
      Call (PrintPA1 safeMatches ''base_PsfFlux_mag''),
      Call (PlotPA1 safeMatches ''base_PsfFlux_mag'' plotbase),
      Call (PrintPA2 safeMatches ''base_PsfFlux_mag''),
      CalcAM1 safeMatches,
      Call (PrintAM1 args1),
      Call (PlotAM1 args1),
      CalcAM2 safeMatches,
      Call (PrintAM2 args2),
      Call (PlotAM2 args2)]"




fun call_good_mag_limit :: "call \<Rightarrow> pyfloat option" where
  "call_good_mag_limit (CheckAstrometry a r d m l mr n) = Some l"
| "call_good_mag_limit (CheckPhotometry a r d m l mr n) = Some l"
| "call_good_mag_limit (PlotAstrometry a e r d m l p) = Some l"
| "call_good_mag_limit (PlotPhotometry a e r d m l p) = Some l"
| "call_good_mag_limit _ = None"

fun call_matches :: "call \<Rightarrow> groupView option" where
  "call_matches (PrintPA1 gv k) = Some gv"
| "call_matches (PlotPA1 gv k p) = Some gv"
| "call_matches (PrintPA2 gv k) = Some gv"
| "call_matches _ = None"

section \<open>ppdbMetricTask: the configuration tree\<close>

text \<open>
  A database object: the \<open>Ppdb\<close> built from a \<open>PpdbConfig\<close> (here its \<open>db_url\<close>), or what
  the \<open>apply()\<close> of a configurable returned, a drop-in replacement with its truth value
  (\<open>_getPpdb\<close> tests its intermediate results with \<open>if result:\<close>).
\<close>

datatype ppdb_object = Ppdb string | DropIn string bool

fun truthy :: "ppdb_object \<Rightarrow> bool" where
  "truthy (Ppdb _) = True"
| "truthy (DropIn _ b) = b"

text \<open>
  A config is a \<open>PpdbConfig\<close> or any other \<open>Config\<close> with the values of its fields. A
  field value is one of the kinds that \<open>_getPpdb\<close> tells apart, in the order of its
  \<open>isinstance\<close> tests: a \<open>ConfigurableInstance\<close> (whether its \<open>ConfigClass\<close> is
  \<open>PpdbConfig\<close>, what \<open>apply()\<close> returns, its \<open>value\<close>); the instance dictionary of a
  \<open>ConfigChoiceField\<close>, single-selection (\<open>names\<close> raises \<open>FieldValidationError\<close> and
  \<open>active\<close> is a config or \<open>None\<close>) or multi-selection (\<open>active\<close> is a list of configs or
  \<open>None\<close>); the dictionary of a \<open>ConfigDictField\<close> (its values); a nested \<open>Config\<close>; or
  anything else.
\<close>

datatype config =
    PpdbConfig string
  | Config "field list"
and field =
    Scalar
  | ConfigurableInstance configurable
  | ChoiceSingle "config option"
  | ChoiceMulti "config list option"
  | ConfigDict "config list"
  | ConfigField config
and configurable =
    Configurable bool ppdb_object config

text \<open>
  \<open>ConfigPpdbLoader._getPpdb\<close> with its two helpers. \<open>getPpdb_values\<close> is the loop over
  \<open>config.values()\<close>, \<open>getPpdb_field\<close> the result that the branch of one field computes
  (\<open>None\<close> for a field of no branch), \<open>getPpdb_each\<close> the loop of
  \<open>_getPpdbFromConfigIterable\<close>.
\<close>

fun getPpdb :: "config option \<Rightarrow> ppdb_object option"
  and getPpdb_values :: "field list \<Rightarrow> ppdb_object option"
  and getPpdb_field :: "field \<Rightarrow> ppdb_object option"
  and getPpdbFromConfigurableField :: "configurable option \<Rightarrow> ppdb_object option"
  and getPpdbFromConfigIterable :: "config list option \<Rightarrow> ppdb_object option"
  and getPpdb_each :: "config list \<Rightarrow> ppdb_object option" where
  "getPpdb None = None"
| "getPpdb (Some (PpdbConfig c)) = Some (Ppdb c)"
| "getPpdb (Some (Config vals)) = getPpdb_values vals"
| "getPpdb_values [] = None"
| "getPpdb_values (f # fs) =
     (case getPpdb_field f of
        Some result \<Rightarrow> if truthy result then Some result else getPpdb_values fs
      | None \<Rightarrow> getPpdb_values fs)"
| "getPpdb_field Scalar = None"
| "getPpdb_field (ConfigurableInstance c) = getPpdbFromConfigurableField (Some c)"
| "getPpdb_field (ChoiceSingle active) = getPpdb active"
| "getPpdb_field (ChoiceMulti active) = getPpdbFromConfigIterable active"
| "getPpdb_field (ConfigDict vs) = getPpdbFromConfigIterable (Some vs)"
| "getPpdb_field (ConfigField c) = getPpdb (Some c)"
| "getPpdbFromConfigurableField None = None"
| "getPpdbFromConfigurableField (Some (Configurable isPpdbConfig applied v)) =
     (if isPpdbConfig then Some applied else getPpdb (Some v))"
| "getPpdbFromConfigIterable None = None"
| "getPpdbFromConfigIterable (Some cs) = (if cs = [] then None else getPpdb_each cs)"
| "getPpdb_each [] = None"
| "getPpdb_each (c # cs) =
     (case getPpdb (Some c) of
        Some result \<Rightarrow> if truthy result then Some result else getPpdb_each cs
      | None \<Rightarrow> getPpdb_each cs)"

record loader_struct =
  ppdb :: "ppdb_object option"

definition ConfigPpdbLoader_run :: "config option \<Rightarrow> loader_struct" where
  "ConfigPpdbLoader_run config = \<lparr>ppdb = getPpdb config\<rparr>"

text \<open>
  Whether a \<open>PpdbConfig\<close> occurs anywhere in a config: the config is one, or a configurable
  below it has \<open>PpdbConfig\<close> as its \<open>ConfigClass\<close>, or a config below it contains one.
\<close>

fun contains_PpdbConfig :: "config \<Rightarrow> bool"
  and fields_contain :: "field list \<Rightarrow> bool"
  and field_contains :: "field \<Rightarrow> bool"
  and configs_contain :: "config list \<Rightarrow> bool" where
  "contains_PpdbConfig (PpdbConfig c) = True"
| "contains_PpdbConfig (Config vals) = fields_contain vals"
| "fields_contain [] = False"
| "fields_contain (f # fs) = (field_contains f \<or> fields_contain fs)"
| "field_contains Scalar = False"
| "field_contains (ConfigurableInstance (Configurable isPpdbConfig applied v)) =
     (isPpdbConfig \<or> contains_PpdbConfig v)"
| "field_contains (ChoiceSingle None) = False"
| "field_contains (ChoiceSingle (Some c)) = contains_PpdbConfig c"
| "field_contains (ChoiceMulti None) = False"
| "field_contains (ChoiceMulti (Some cs)) = configs_contain cs"
| "field_contains (ConfigDict cs) = configs_contain cs"
| "field_contains (ConfigField c) = contains_PpdbConfig c"
| "configs_contain [] = False"
| "configs_contain (c # cs) = (contains_PpdbConfig c \<or> configs_contain cs)"

section \<open>ppdbMetricTask: PpdbMetricTask\<close>

record verify_measurement =
  metric_name :: string
  quantity :: real
  extras :: "(string \<times> string) list"

record result_struct =
  measurement :: "verify_measurement option"

text \<open>
  What a concrete task supplies: the configurable subtask \<open>dbLoader\<close> (its \<open>run\<close>), the
  abstract method \<open>makeMeasurement\<close>, and \<open>addStandardMetadata\<close>, which the task inherits
  from \<open>MetricTask\<close> and which updates the measurement it is given.
\<close>

record task =
  dbLoader_run :: "config option \<Rightarrow> exn + loader_struct"
  makeMeasurement :: "ppdb_object \<Rightarrow> dataId \<Rightarrow> exn + verify_measurement option"
  addStandardMetadata :: "verify_measurement \<Rightarrow> dataId \<Rightarrow> verify_measurement"

datatype task_event =
    DbLoaderRun "config option"
  | MakeMeasurement ppdb_object dataId
  | AddStandardMetadata verify_measurement dataId

text \<open>
  The \<open>dbInfo\<close> input: a dataset (a config, or \<open>None\<close>), or a list holding datasets.
  \<open>dbInfo[0]\<close> raises \<open>TypeError\<close> on the former, which is caught and leaves \<open>dbInfo\<close> as
  it is, and \<open>IndexError\<close> on an empty list, which is not caught.
\<close>

datatype dataset = Dataset "config option" | DatasetList "config option list"

fun first_or_self :: "dataset \<Rightarrow> exn + config option" where
  "first_or_self (Dataset c) = Inr c"
| "first_or_self (DatasetList []) = Inl IndexError"
| "first_or_self (DatasetList (c # cs)) = Inr c"

definition lookup :: "(string \<times> 'v) list \<Rightarrow> string \<Rightarrow> exn + 'v" where
  "lookup d k = (case map_of d k of None \<Rightarrow> Inl (KeyError k) | Some v \<Rightarrow> Inr v)"

definition adaptArgsAndRun ::
  "task \<Rightarrow> (string \<times> dataset) list \<Rightarrow> (string \<times> dataId) list \<Rightarrow> (string \<times> dataId) list
     \<Rightarrow> (task_event, result_struct) io" where
  "adaptArgsAndRun self inputData inputDataIds outputDataId =
     io_bind (io_lift (lookup outputDataId ''measurement'')) (\<lambda>dataId.
     io_bind (io_lift (lookup inputData ''dbInfo'')) (\<lambda>dbInfo.
     io_bind (io_lift (first_or_self dbInfo)) (\<lambda>dbInfo.
     io_bind (io_call (DbLoaderRun dbInfo) (dbLoader_run self dbInfo)) (\<lambda>loaded.
     let db = ppdb loaded
     in io_bind (case db of
                   Some handle \<Rightarrow>
                     io_call (MakeMeasurement handle dataId) (makeMeasurement self handle dataId)
                 | None \<Rightarrow> io_return None) (\<lambda>measurement.
        io_bind (case measurement of
                   Some m \<Rightarrow>
                     io_call (AddStandardMetadata m dataId)
                       (Inr (Some (addStandardMetadata self m dataId)))
                 | None \<Rightarrow> io_return None) (\<lambda>measurement.
        io_return \<lparr>measurement = measurement\<rparr>))))))"

definition PpdbMetricTask_run :: "task \<Rightarrow> dataset \<Rightarrow> (task_event, result_struct) io" where
  "PpdbMetricTask_run self dbInfo =
     adaptArgsAndRun self [(''dbInfo'', dbInfo)] [(''dbInfo'', [])] [(''measurement'', [])]"

definition star :: "int \<Rightarrow> real \<Rightarrow> detection" where
  "star i m = \<lparr>object = i, coord_ra = Fin 0, coord_dec = Fin 0,
     base_PixelFlags_flag_saturated = False, base_PixelFlags_flag_cr = False,
     base_PixelFlags_flag_bad = False, base_PixelFlags_flag_edge = False,
     base_PsfFlux_flux = Fin 1, base_PsfFlux_fluxSigma = Fin 1,
     base_PsfFlux_mag = Fin m, base_PsfFlux_magerr = Fin 0.01,
     base_ClassificationExtendedness_value = Fin 0\<rparr>"

definition example_matches :: groupView where
  "example_matches = \<lparr>schema = ''object'' # ''coord_ra'' # ''coord_dec'' # analyzeData_fields,
     entries =
       [(1, [star 1 18.0, star 1 18.2, star 1 18.1]),
        (2, [star 2 18.0]),
        (3, [star 3 18.0, (star 3 18.0)\<lparr>base_PixelFlags_flag_cr := True\<rparr>]),
        (4, [star 4 20.0, star 4 21.0]),
        (5, [star 5 18.0, (star 5 18.0)\<lparr>base_ClassificationExtendedness_value := NaN\<rparr>]),
        (6, [star 6 18.0, (star 6 18.0)\<lparr>base_PsfFlux_mag := PInf\<rparr>])]\<rparr>"

definition example_positionRms :: "catalog \<Rightarrow> pyfloat" where
  "example_positionRms cat = Fin 0"


text \<open>A small repository: two visits of one CCD, with two stars seen in both.\<close>

definition example_src :: "int \<Rightarrow> real \<Rightarrow> detection" where
  "example_src i f = \<lparr>object = i, coord_ra = Fin 0, coord_dec = Fin 0,
     base_PixelFlags_flag_saturated = False, base_PixelFlags_flag_cr = False,
     base_PixelFlags_flag_bad = False, base_PixelFlags_flag_edge = False,
     base_PsfFlux_flux = Fin f, base_PsfFlux_fluxSigma = Fin 0.01,
     base_PsfFlux_mag = Fin 0, base_PsfFlux_magerr = Fin 0,
     base_ClassificationExtendedness_value = Fin 0\<rparr>"

definition visit1 :: dataId where
  "visit1 = [(''visit'', 1), (''ccd'', 0)]"

definition visit2 :: dataId where
  "visit2 = [(''visit'', 2), (''ccd'', 0)]"

definition visit3 :: dataId where
  "visit3 = [(''visit'', 3), (''ccd'', 0)]"

definition example_src_schema :: "string list" where
  "example_src_schema = ''coord_ra'' # ''coord_dec'' # flagNames @
     [''base_PsfFlux_flux'', ''base_PsfFlux_fluxSigma'', ''base_ClassificationExtendedness_value'']"

definition example_butler :: butler where
  "example_butler = \<lparr>
     get_src_schema = Inr example_src_schema,
     get_calexp_md = (\<lambda>vId. if vId = visit1 \<or> vId = visit2
                             then Inr \<lparr>FLUXMAG0 = Fin 30, FLUXMAG0ERR = Fin 0\<rparr>
                             else Inl (ExternalError ''no calexp_md for this visit'')),
     get_src = (\<lambda>vId. if vId = visit1 then Inr [example_src 1 12, example_src 2 10.5]
                       else if vId = visit2 then Inr [example_src 1 10, example_src 2 8.5]
                       else Inl (ExternalError ''no src for this visit''))\<rparr>"

text \<open>
  A world around it. The calibration is a toy one (zero point minus flux), the matcher
  keeps the object identifiers the sources carry, and the downstream modules return.
\<close>

definition example_world :: world where
  "example_world = \<lparr>
     w_Butler = (\<lambda>repo. if repo = ''repo'' then Inr example_butler
                          else Inl (ExternalError ''no such repository'')),
     w_getCcdKeyName = (\<lambda>vId. ''ccd''),
     w_getMagnitude = (\<lambda>md f s. (fadd (FLUXMAG0 md) (fscale (- 1) f), s)),
     w_MultiMatch_add = (\<lambda>m cat vId. Inr ()),
     w_MultiMatch_finish = (\<lambda>m. Inr (concat (map fst (mm_added m)))),
     w_GroupView_build = (\<lambda>sch cat.
        Inr \<lparr>schema = ''object'' # sch,
             entries = map (\<lambda>i. (i, filter (\<lambda>r. object r = i) cat)) (remdups (map object cat))\<rparr>),
     w_positionRms = example_positionRms,
     w_repoNameToPrefix = (\<lambda>repo. repo),
     w_calcAM1 = (\<lambda>gv. Inr (AmArgs [])),
     w_calcAM2 = (\<lambda>gv. Inr (AmArgs [])),
     w_downstream = (\<lambda>c. Inr ())\<rparr>"

text \<open>What loading the two visits of the example repository gives.\<close>

definition example_det :: "int \<Rightarrow> real \<Rightarrow> real \<Rightarrow> detection" where
  "example_det i f m = (example_src i f)\<lparr>base_PsfFlux_mag := Fin m, base_PsfFlux_magerr := Fin 0.01\<rparr>"

definition example_loaded :: groupView where
  "example_loaded = \<lparr>schema = ''object'' # newSchema example_src_schema,
     entries = [(1, [example_det 1 12 18, example_det 1 10 20]),
                (2, [example_det 2 10.5 19.5, example_det 2 8.5 21.5])]\<rparr>"

definition example_matcher :: matcher where
  "example_matcher = \<lparr>mm_schema = newSchema example_src_schema,
     mm_dataIdFormat = [''visit'', ''ccd''], mm_radius = Angle 1 arcseconds,
     mm_added = [([example_det 1 12 18, example_det 2 10.5 19.5], visit1),
                 ([example_det 1 10 20, example_det 2 8.5 21.5], visit2)]\<rparr>"

definition example_load_trace :: "event list" where
  "example_load_trace =
     [ButlerOpen ''repo'', ButlerGet ''src_schema'' None,
      ButlerGet ''calexp_md'' (Some visit1), ButlerGet ''src'' (Some visit1), Print 2 0,
      MultiMatchAdd visit1,
      ButlerGet ''calexp_md'' (Some visit2), ButlerGet ''src'' (Some visit2), Print 2 0,
      MultiMatchAdd visit2,
      MultiMatchFinish example_matcher]"

definition example_struct :: info_struct where
  "example_struct = \<lparr>mag = [Fin 19, Fin 20.5], magerr = [Fin 0.01, Fin 0.01],
     magrms = [Fin 1, Fin 1], dist = [Fin 0, Fin 0], match = 2\<rparr>"

text \<open>
  Two science-task configs: one with a \<open>PpdbConfig\<close> three levels down, behind a
  multi-selection choice field, and one with none; and a metric task with the default
  loader that counts nothing and reports zero.
\<close>

definition example_config_with_db :: config where
  "example_config_with_db =
     Config [Scalar,
             ConfigField (Config [Scalar, ChoiceSingle None]),
             ChoiceMulti (Some [Config [Scalar],
                                Config [ConfigDict [], ConfigField (PpdbConfig ''sqlite:///ppdb.db'')]])]"

definition example_config_without_db :: config where
  "example_config_without_db =
     Config [Scalar,
             ConfigField (Config [Scalar, ChoiceSingle None]),
             ConfigurableInstance (Configurable False (DropIn ''unused'' True) (Config [Scalar])),
             ChoiceMulti (Some [Config [Scalar], Config [ConfigDict []]])]"

definition example_measurement :: verify_measurement where
  "example_measurement = \<lparr>metric_name = ''ap_association.numNewDiaObjects'', quantity = 0, extras = []\<rparr>"

definition example_task :: task where
  "example_task = \<lparr>
     dbLoader_run = (\<lambda>config. Inr (ConfigPpdbLoader_run config)),
     makeMeasurement = (\<lambda>db dataId. Inr (Some example_measurement)),
     addStandardMetadata = (\<lambda>m dataId. m\<lparr>extras := (''estimator'', ''example_task'') # extras m\<rparr>)\<rparr>"

lemma where_entries_pure: "where_entries (\<lambda>c. Inr (P c)) gs = Inr (filter (\<lambda>g. P (snd g)) gs)"
  by (induction gs) auto


lemma where_entries_subseq: "where_entries p gs = Inr r \<Longrightarrow> subseq r gs"
  by (induction gs arbitrary: r) (auto split: sum.splits if_splits)

lemma where_entries_total:
  "(\<forall>g \<in> set gs. \<exists>b. p (snd g) = Inr b) \<Longrightarrow> \<exists>r. where_entries p gs = Inr r"
  by (induction gs) (auto split: sum.splits)

lemma where_entries_no_raise:
  "where_entries p gs = Inr r \<Longrightarrow> g \<in> set gs \<Longrightarrow> \<exists>b. p (snd g) = Inr b"
  by (induction gs arbitrary: r) (auto split: sum.splits if_splits)

lemma where_entries_idem: "where_entries p gs = Inr r \<Longrightarrow> where_entries p r = Inr r"
proof (induction gs arbitrary: r)
  case Nil
  then show ?case by simp
next
  case (Cons g gs)
  then show ?case by (auto split: sum.splits if_splits)
qed

lemma flt_fmax: "flt (fmax a c) b \<longleftrightarrow> flt a b \<and> flt c b"
  by (cases a; cases c; cases b) auto

lemma flt_foldl_fmax: "flt (foldl fmax x xs) b \<longleftrightarrow> flt x b \<and> (\<forall>y \<in> set xs. flt y b)"
  by (induction xs arbitrary: x) (auto simp: flt_fmax)

lemma np_max_flt:
  "xs \<noteq> [] \<Longrightarrow> \<exists>m. np_max xs = Inr m \<and> (flt m b \<longleftrightarrow> (\<forall>y \<in> set xs. flt y b))"
  by (cases xs) (auto simp: flt_foldl_fmax)



lemma find_all_ok: "find_all gv ns = Inr () \<longleftrightarrow> set ns \<subseteq> set (schema gv)"
  by (induction ns) (auto simp: schema_find_def)

section \<open>The good-quality filter\<close>

text \<open>
  Claim C1. \<open>goodFilter\<close> passes a group exactly when it has at least two member
  detections, no member has one of the pixel flags saturated, cr, bad or edge set, and every
  member's PSF magnitude is finite. In particular a group of fewer than two members is
  excluded, and so is a group with a disqualifying flag on any member, whatever the
  other members are.
\<close>

theorem goodFilter_iff:
  "(goodFilter cat \<longleftrightarrow>
      2 \<le> length cat
      \<and> (\<forall>d \<in> set cat. \<not> base_PixelFlags_flag_saturated d \<and> \<not> base_PixelFlags_flag_cr d
                        \<and> \<not> base_PixelFlags_flag_bad d \<and> \<not> base_PixelFlags_flag_edge d)
      \<and> (\<forall>d \<in> set cat. isfinite (base_PsfFlux_mag d)))
   \<and> (length cat < 2 \<longrightarrow> \<not> goodFilter cat)
   \<and> ((\<exists>d \<in> set cat. base_PixelFlags_flag_saturated d \<or> base_PixelFlags_flag_cr d
                        \<or> base_PixelFlags_flag_bad d \<or> base_PixelFlags_flag_edge d)
        \<longrightarrow> \<not> goodFilter cat)"
  by (auto simp: goodFilter_def nMatchesRequired_def flagKeys_def list_ex_iff list_all_iff)

text \<open>The characterisation at four concrete groups: one passes, one is too small, one has a
  cosmic-ray flag, one has an infinite magnitude.\<close>

theorem goodFilter_iff_witness:
  "goodFilter [star 1 18.0, star 1 18.2, star 1 18.1]
   \<and> \<not> goodFilter [star 2 18.0]
   \<and> \<not> goodFilter [star 3 18.0, (star 3 18.0)\<lparr>base_PixelFlags_flag_cr := True\<rparr>]
   \<and> \<not> goodFilter [star 6 18.0, (star 6 18.0)\<lparr>base_PsfFlux_mag := PInf\<rparr>]"
  using goodFilter_iff [of "[star 1 18.0, star 1 18.2, star 1 18.1]"]
        goodFilter_iff [of "[star 2 18.0]"]
        goodFilter_iff [of "[star 3 18.0, (star 3 18.0)\<lparr>base_PixelFlags_flag_cr := True\<rparr>]"]
        goodFilter_iff [of "[star 6 18.0, (star 6 18.0)\<lparr>base_PsfFlux_mag := PInf\<rparr>]"]
  by (simp add: star_def)

section \<open>Facts about \<open>analyzeData\<close> shared by the theorems below\<close>

lemma goodFilter_nonempty: "goodFilter cat \<Longrightarrow> cat \<noteq> []"
  by (auto simp: goodFilter_def nMatchesRequired_def)


lemma safeFilter_nonempty:
  "cat \<noteq> [] \<Longrightarrow>
     safeFilter maxMag cat =
       Inr (fle (np_mean (map base_PsfFlux_mag cat)) maxMag
            \<and> (\<forall>d \<in> set cat. flt (base_ClassificationExtendedness_value d) safeMaxExtended))"
proof -
  assume ne: "cat \<noteq> []"
  then have "map base_ClassificationExtendedness_value cat \<noteq> []" by simp
  from np_max_flt [OF this, of safeMaxExtended]
  obtain m where m: "np_max (map base_ClassificationExtendedness_value cat) = Inr m"
    and lt: "flt m safeMaxExtended \<longleftrightarrow>
             (\<forall>y \<in> set (map base_ClassificationExtendedness_value cat). flt y safeMaxExtended)"
    by blast
  show ?thesis by (simp add: safeFilter_def m lt)
qed

lemma analyzeData_Inr:
  assumes "analyzeData positionRms gv la = Inr (s, safe)"
  shows "where_entries (safeFilter (arg_or_default la analyzeData_default_good_mag_limit))
           (filter (\<lambda>g. goodFilter (snd g)) (entries gv)) = Inr (entries safe)"
    and "schema safe = schema gv"
    and "s = \<lparr>mag = map (\<lambda>g. np_mean (map base_PsfFlux_mag (snd g))) (filter (\<lambda>g. goodFilter (snd g)) (entries gv)),
              magerr = map (\<lambda>g. np_median (map base_PsfFlux_magerr (snd g))) (filter (\<lambda>g. goodFilter (snd g)) (entries gv)),
              magrms = map (\<lambda>g. np_std (map base_PsfFlux_mag (snd g))) (filter (\<lambda>g. goodFilter (snd g)) (entries gv)),
              dist = map (\<lambda>g. positionRms (snd g)) (filter (\<lambda>g. goodFilter (snd g)) (entries gv)),
              match = length (filter (\<lambda>g. goodFilter (snd g)) (entries gv))\<rparr>"
    and "set analyzeData_fields \<subseteq> set (schema gv)"
  using assms
  by (auto simp: analyzeData_def Let_def where_gv_def where_entries_pure aggregate_def
                 find_all_ok [symmetric]
           split: sum.splits)

lemma safe_on_good_total:
  "\<exists>r. where_entries (safeFilter maxMag) (filter (\<lambda>g. goodFilter (snd g)) gs) = Inr r"
  by (rule where_entries_total) (auto simp: safeFilter_nonempty dest: goodFilter_nonempty)

lemma analyzeData_total:
  assumes "set analyzeData_fields \<subseteq> set (schema gv)"
  shows "\<exists>s safe. analyzeData positionRms gv la = Inr (s, safe)"
proof -
  from assms have f: "find_all gv analyzeData_fields = Inr ()" by (simp add: find_all_ok)
  obtain r where r: "where_entries (safeFilter (arg_or_default la analyzeData_default_good_mag_limit))
       (filter (\<lambda>g. goodFilter (snd g)) (entries gv)) = Inr r"
    using safe_on_good_total by blast
  show ?thesis
    by (simp add: analyzeData_def Let_def where_gv_def where_entries_pure f r)
qed

section \<open>The safe (bright-star) filter\<close>



lemma example_schema_ok: "set analyzeData_fields \<subseteq> set (schema example_matches)"
  by (auto simp: example_matches_def)

section \<open>The summary statistics\<close>

text \<open>
  Claim C3. When the schema has the fields \<open>analyzeData\<close> looks up, the call returns.
  Its summary holds, for each group that passes the good-quality filter and in the order of
  the groups: the mean of the members' PSF magnitudes (\<open>mag\<close>), their standard deviation
  (\<open>magrms\<close>), the median of the members' PSF magnitude errors (\<open>magerr\<close>) and the
  positional RMS (\<open>dist\<close>); \<open>match\<close> is the number of good groups, which is the
  length of \<open>dist\<close>.
\<close>

theorem analyzeData_summary:
  "(set analyzeData_fields \<subseteq> set (schema gv) \<longrightarrow>
      (\<exists>s safe. analyzeData positionRms gv la = Inr (s, safe)))
   \<and> (analyzeData positionRms gv la = Inr (s, safe) \<longrightarrow>
        (let good = filter (\<lambda>g. goodFilter (snd g)) (entries gv)
         in mag s = map (\<lambda>g. np_mean (map base_PsfFlux_mag (snd g))) good
          \<and> magrms s = map (\<lambda>g. np_std (map base_PsfFlux_mag (snd g))) good
          \<and> magerr s = map (\<lambda>g. np_median (map base_PsfFlux_magerr (snd g))) good
          \<and> dist s = map (\<lambda>g. positionRms (snd g)) good
          \<and> match s = length good
          \<and> match s = length (dist s)))"
proof (intro conjI impI)
  assume "set analyzeData_fields \<subseteq> set (schema gv)"
  then show "\<exists>s safe. analyzeData positionRms gv la = Inr (s, safe)"
    by (rule analyzeData_total)
next
  assume a: "analyzeData positionRms gv la = Inr (s, safe)"
  show "let good = filter (\<lambda>g. goodFilter (snd g)) (entries gv)
         in mag s = map (\<lambda>g. np_mean (map base_PsfFlux_mag (snd g))) good
          \<and> magrms s = map (\<lambda>g. np_std (map base_PsfFlux_mag (snd g))) good
          \<and> magerr s = map (\<lambda>g. np_median (map base_PsfFlux_magerr (snd g))) good
          \<and> dist s = map (\<lambda>g. positionRms (snd g)) good
          \<and> match s = length good
          \<and> match s = length (dist s)"
    unfolding Let_def by (subst (1 2 3 4 5 6 7) analyzeData_Inr(3) [OF a]) simp
qed

text \<open>On the six example groups three are good: their means are 18.1, 20.5 and 18.0.\<close>

theorem analyzeData_summary_witness:
  "\<exists>s safe. analyzeData example_positionRms example_matches None = Inr (s, safe)
      \<and> mag s = [Fin 18.1, Fin 20.5, Fin 18.0]
      \<and> dist s = [Fin 0, Fin 0, Fin 0]
      \<and> match s = 3"
proof -
  obtain s safe where a: "analyzeData example_positionRms example_matches None = Inr (s, safe)"
    using analyzeData_summary [of example_matches example_positionRms None] example_schema_ok
    by blast
  have "mag s = [Fin 18.1, Fin 20.5, Fin 18.0] \<and> dist s = [Fin 0, Fin 0, Fin 0] \<and> match s = 3"
    using a analyzeData_summary [of example_matches example_positionRms None s safe]
    by (simp add: example_matches_def goodFilter_def nMatchesRequired_def flagKeys_def star_def
          np_mean_def example_positionRms_def Let_def)
  with a show ?thesis by blast
qed

section \<open>Idempotence of the safe filter\<close>

text \<open>
  Claim C4. Applying the safe filter to the output of the safe filter returns that output
  unchanged: this holds for every GroupView on which the first application returns, and
  for the \<open>safeMatches\<close> that \<open>analyzeData\<close> returns.
\<close>

theorem safeFilter_idempotent:
  "(where_gv gv (safeFilter maxMag) = Inr gv' \<longrightarrow> where_gv gv' (safeFilter maxMag) = Inr gv')
   \<and> (analyzeData positionRms allMatches la = Inr (s, safe) \<longrightarrow>
        where_gv safe (safeFilter (arg_or_default la analyzeData_default_good_mag_limit)) = Inr safe)"
proof (intro conjI impI)
  assume "where_gv gv (safeFilter maxMag) = Inr gv'"
  then obtain r where r: "where_entries (safeFilter maxMag) (entries gv) = Inr r"
    and gv': "gv' = gv\<lparr>entries := r\<rparr>"
    by (auto simp: where_gv_def split: sum.splits)
  from where_entries_idem [OF r] show "where_gv gv' (safeFilter maxMag) = Inr gv'"
    by (simp add: where_gv_def gv')
next
  assume a: "analyzeData positionRms allMatches la = Inr (s, safe)"
  from where_entries_idem [OF analyzeData_Inr(1) [OF a]]
  show "where_gv safe (safeFilter (arg_or_default la analyzeData_default_good_mag_limit)) = Inr safe"
    by (simp add: where_gv_def)
qed

text \<open>Both parts on the example groups with the limit 19.5.\<close>

theorem safeFilter_idempotent_witness:
  "\<exists>gv' s safe.
      where_gv example_matches (safeFilter (Fin 19.5)) = Inr gv'
    \<and> where_gv gv' (safeFilter (Fin 19.5)) = Inr gv'
    \<and> analyzeData example_positionRms example_matches None = Inr (s, safe)
    \<and> where_gv safe (safeFilter (Fin 19.5)) = Inr safe"
proof -
  obtain gv' where g: "where_gv example_matches (safeFilter (Fin 19.5)) = Inr gv'"
    by (simp add: where_gv_def example_matches_def safeFilter_def np_mean_def star_def
          safeMaxExtended_def)
  obtain s safe where a: "analyzeData example_positionRms example_matches None = Inr (s, safe)"
    using analyzeData_total [OF example_schema_ok] by blast
  from g a safeFilter_idempotent [of example_matches "Fin 19.5" gv' example_positionRms
                                     example_matches None s safe]
  show ?thesis
    by (auto simp: arg_or_default_def analyzeData_default_good_mag_limit_def)
qed

section \<open>The filters are selections\<close>

text \<open>
  Claim C5. \<open>where\<close> keeps the schema and returns a subsequence of the groups it was
  given, each kept group with its identifier and its member records as they were. So the
  good groups are a subsequence of all groups, the safe groups a subsequence of the good
  groups, and every group of \<open>safeMatches\<close> is a group of the input with exactly its
  original members.
\<close>

theorem filters_are_selections:
  "(where_gv gv p = Inr gv' \<longrightarrow>
      schema gv' = schema gv \<and> subseq (entries gv') (entries gv))
   \<and> (analyzeData positionRms allMatches la = Inr (s, safe) \<longrightarrow>
        schema safe = schema allMatches
      \<and> subseq (entries safe) (filter (\<lambda>g. goodFilter (snd g)) (entries allMatches))
      \<and> subseq (filter (\<lambda>g. goodFilter (snd g)) (entries allMatches)) (entries allMatches)
      \<and> subseq (entries safe) (entries allMatches)
      \<and> (\<forall>g \<in> set (entries safe). g \<in> set (entries allMatches)))"
proof (intro conjI impI)
  assume "where_gv gv p = Inr gv'"
  then obtain r where r: "where_entries p (entries gv) = Inr r" and gv': "gv' = gv\<lparr>entries := r\<rparr>"
    by (auto simp: where_gv_def split: sum.splits)
  show "schema gv' = schema gv" by (simp add: gv')
  from where_entries_subseq [OF r] show "subseq (entries gv') (entries gv)" by (simp add: gv')
next
  assume a: "analyzeData positionRms allMatches la = Inr (s, safe)"
  show "schema safe = schema allMatches" by (rule analyzeData_Inr(2) [OF a])
  show 1: "subseq (entries safe) (filter (\<lambda>g. goodFilter (snd g)) (entries allMatches))"
    by (rule where_entries_subseq [OF analyzeData_Inr(1) [OF a]])
  show 2: "subseq (filter (\<lambda>g. goodFilter (snd g)) (entries allMatches)) (entries allMatches)"
    by simp
  from 1 2 show 3: "subseq (entries safe) (entries allMatches)"
    by (rule subseq_order.trans)
  from 3 show "\<forall>g \<in> set (entries safe). g \<in> set (entries allMatches)"
    by (auto dest: list_emb_set)
qed

text \<open>On the example groups the safe groups are the first input group, members intact.\<close>

theorem filters_are_selections_witness:
  "\<exists>gv' s safe.
      where_gv example_matches (\<lambda>cat. Inr (goodFilter cat)) = Inr gv'
    \<and> schema gv' = schema example_matches
    \<and> subseq (entries gv') (entries example_matches)
    \<and> analyzeData example_positionRms example_matches None = Inr (s, safe)
    \<and> subseq (entries safe) (entries example_matches)
    \<and> (\<forall>g \<in> set (entries safe). g \<in> set (entries example_matches))"
proof -
  obtain gv' where g: "where_gv example_matches (\<lambda>cat. Inr (goodFilter cat)) = Inr gv'"
    by (simp add: where_gv_def where_entries_pure)
  obtain s safe where a: "analyzeData example_positionRms example_matches None = Inr (s, safe)"
    using analyzeData_total [OF example_schema_ok] by blast
  from g a filters_are_selections [of example_matches "\<lambda>cat. Inr (goodFilter cat)" gv'
                                      example_positionRms example_matches None s safe]
  show ?thesis by blast
qed

section \<open>Sequencing, and the loop of \<open>loadAndMatchData\<close>\<close>

lemma io_bind_Inl: "snd m = Inl e \<Longrightarrow> io_bind m f = (fst m, Inl e)"
  by (simp add: io_bind_def)

lemma io_bind_Inr: "snd m = Inr x \<Longrightarrow> io_bind m f = (fst m @ fst (f x), snd (f x))"
  by (simp add: io_bind_def)

lemma io_bind_raise: "io_bind (t, Inl e) f = (t, Inl e)"
  by (simp add: io_bind_def)

lemma io_bind_value: "io_bind (t, Inr x) f = (t @ fst (f x), snd (f x))"
  by (simp add: io_bind_def)







lemma loadAndMatchData_Butler_fails:
  "w_Butler w repo = Inl e \<Longrightarrow> loadAndMatchData w repo visitDataIds ra = ([ButlerOpen repo], Inl e)"
  by (simp add: loadAndMatchData_def io_call_def io_bind_raise)

lemma loadAndMatchData_empty:
  "w_Butler w repo = Inr b \<Longrightarrow> loadAndMatchData w repo [] ra = ([ButlerOpen repo], Inl IndexError)"
  by (simp add: loadAndMatchData_def io_call_def io_raise_def io_bind_raise io_bind_value)

lemma loadAndMatchData_schema_fails:
  "w_Butler w repo = Inr b \<Longrightarrow> visitDataIds \<noteq> [] \<Longrightarrow> get_src_schema b = Inl e \<Longrightarrow>
     loadAndMatchData w repo visitDataIds ra
       = ([ButlerOpen repo, ButlerGet ''src_schema'' None], Inl e)"
  by (cases visitDataIds)
     (simp_all add: loadAndMatchData_def io_call_def io_return_def io_bind_raise io_bind_value)

lemma loadAndMatchData_loop:
  assumes "w_Butler w repo = Inr b" and "visitDataIds \<noteq> []" and "get_src_schema b = Inr sch"
  shows "loadAndMatchData w repo visitDataIds ra =
     io_bind ([ButlerOpen repo, ButlerGet ''src_schema'' None], Inr ()) (\<lambda>_.
     io_bind (loadVisits w b (w_getCcdKeyName w (hd visitDataIds))
                (initial_state sch (w_getCcdKeyName w (hd visitDataIds))
                   (arg_or_default ra default_matchRadius)) visitDataIds) (\<lambda>st.
     io_bind (io_call (MultiMatchFinish (snd st)) (w_MultiMatch_finish w (snd st))) (\<lambda>matchCat.
     io_lift (w_GroupView_build w (newSchema sch) matchCat))))"
  using assms
  by (cases visitDataIds)
     (simp_all add: loadAndMatchData_def io_call_def io_return_def io_bind_value Let_def)


lemma loadVisit_radius:
  "loadVisit w b k st vId = (t, r) \<Longrightarrow>
     (\<forall>m. MultiMatchFinish m \<notin> set t)
   \<and> (\<forall>st'. r = Inr st' \<longrightarrow> mm_radius (snd st') = mm_radius (snd st))"
  by (auto simp: loadVisit_def io_bind_def io_call_def io_return_def io_raise_def Let_def
           split: sum.splits option.splits)

lemma loadVisits_radius:
  "loadVisits w b k st ids = (t, r) \<Longrightarrow>
     (\<forall>m. MultiMatchFinish m \<notin> set t)
   \<and> (\<forall>st'. r = Inr st' \<longrightarrow> mm_radius (snd st') = mm_radius (snd st))"
proof (induction ids arbitrary: st t r)
  case Nil
  then show ?case by (auto simp: io_return_def)
next
  case (Cons vId rest)
  obtain t1 r1 where v: "loadVisit w b k st vId = (t1, r1)" by (cases "loadVisit w b k st vId")
  note h1 = loadVisit_radius [OF v]
  show ?case
  proof (cases r1)
    case (Inl e)
    with Cons.prems v h1 show ?thesis by (simp add: io_bind_raise)
  next
    case (Inr st1)
    obtain t2 r2 where vs: "loadVisits w b k st1 rest = (t2, r2)"
      by (cases "loadVisits w b k st1 rest")
    note h2 = Cons.IH [OF vs]
    from Cons.prems v Inr vs have "t = t1 @ t2" and "r = r2"
      by (simp_all add: io_bind_value)
    with h1 h2 Inr show ?thesis by auto
  qed
qed

lemma loadAndMatchData_radius:
  "MultiMatchFinish m \<in> set (fst (loadAndMatchData w repo visitDataIds ra)) \<Longrightarrow>
     mm_radius m = arg_or_default ra default_matchRadius"
proof -
  assume m: "MultiMatchFinish m \<in> set (fst (loadAndMatchData w repo visitDataIds ra))"
  show ?thesis
  proof (cases "w_Butler w repo")
    case (Inl e)
    with m show ?thesis by (simp add: loadAndMatchData_Butler_fails)
  next
    case (Inr b)
    show ?thesis
    proof (cases "visitDataIds = []")
      case True
      with m Inr show ?thesis by (simp add: loadAndMatchData_empty)
    next
      case False
      show ?thesis
      proof (cases "get_src_schema b")
        case (Inl e)
        with m Inr False show ?thesis by (simp add: loadAndMatchData_schema_fails)
      next
        case sch: (Inr sch)
        let ?k = "w_getCcdKeyName w (hd visitDataIds)"
        let ?st0 = "initial_state sch ?k (arg_or_default ra default_matchRadius)"
        obtain t r where l: "loadVisits w b ?k ?st0 visitDataIds = (t, r)"
          by (cases "loadVisits w b ?k ?st0 visitDataIds")
        note h = loadVisits_radius [OF l]
        from m h show ?thesis
          unfolding loadAndMatchData_loop [OF Inr False sch] l
          by (cases r)
             (auto simp: io_bind_def io_call_def io_lift_def initial_state_def split: sum.splits)
      qed
    qed
  qed
qed

section \<open>The trace of \<open>run\<close>\<close>

lemma run_load_fails:
  "loadAndMatchData w repo visitDataIds None = (t0, Inl e) \<Longrightarrow>
     run w repo visitDataIds la ma mp mr = (t0, Inl e)"
  by (simp add: run_def Let_def io_bind_raise)

lemma run_analyze_fails:
  "loadAndMatchData w repo visitDataIds None = (t0, Inr allMatches) \<Longrightarrow>
   analyzeData (w_positionRms w) allMatches
      (Some (arg_or_default la run_default_good_mag_limit)) = Inl e \<Longrightarrow>
     run w repo visitDataIds la ma mp mr = (t0, Inl e)"
  by (simp add: run_def Let_def io_bind_raise io_bind_value io_lift_def)

lemma find_mag_after_analyzeData:
  "analyzeData p allMatches la = Inr (s, safe) \<Longrightarrow>
     schema_find allMatches ''base_PsfFlux_mag'' = Inr ''base_PsfFlux_mag''"
  by (auto simp: analyzeData_def Let_def find_all_ok analyzeData_fields_def schema_find_def
           split: sum.splits)

lemma run_trace_prefix:
  assumes load: "loadAndMatchData w repo visitDataIds None = (t0, Inr allMatches)"
    and an: "analyzeData (w_positionRms w) allMatches
               (Some (arg_or_default la run_default_good_mag_limit)) = Inr (s, safe)"
  shows "\<exists>tr args1 args2.
           fst (run w repo visitDataIds la ma mp mr) = t0 @ tr
         \<and> tr \<noteq> []
         \<and> prefix tr (downstream_events s safe
                        (arg_or_default la run_default_good_mag_limit)
                        (arg_or_default ma run_default_medianAstromscatterRef)
                        (arg_or_default mp run_default_medianPhotoscatterRef)
                        (arg_or_default mr run_default_matchRef)
                        (w_repoNameToPrefix w repo) args1 args2)
         \<and> (snd (run w repo visitDataIds la ma mp mr) = Inr () \<longrightarrow>
              tr = downstream_events s safe
                        (arg_or_default la run_default_good_mag_limit)
                        (arg_or_default ma run_default_medianAstromscatterRef)
                        (arg_or_default mp run_default_medianPhotoscatterRef)
                        (arg_or_default mr run_default_matchRef)
                        (w_repoNameToPrefix w repo) args1 args2)"
  unfolding run_def Let_def
  by (simp add: load an io_bind_value io_lift_def find_mag_after_analyzeData [OF an]
        downstream_events_def mmag_def invoke_def io_call_def io_bind_def
      split: sum.splits)

lemma run_trace_calls:
  assumes load: "loadAndMatchData w repo visitDataIds None = (t0, Inr allMatches)"
    and an: "analyzeData (w_positionRms w) allMatches
               (Some (arg_or_default la run_default_good_mag_limit)) = Inr (s, safe)"
  shows "\<exists>tr args1 args2.
           fst (run w repo visitDataIds la ma mp mr) =
             t0 @ hd (downstream_events s safe
                        (arg_or_default la run_default_good_mag_limit)
                        (arg_or_default ma run_default_medianAstromscatterRef)
                        (arg_or_default mp run_default_medianPhotoscatterRef)
                        (arg_or_default mr run_default_matchRef)
                        (w_repoNameToPrefix w repo) args1 args2) # tr
         \<and> set tr \<subseteq> set (tl (downstream_events s safe
                        (arg_or_default la run_default_good_mag_limit)
                        (arg_or_default ma run_default_medianAstromscatterRef)
                        (arg_or_default mp run_default_medianPhotoscatterRef)
                        (arg_or_default mr run_default_matchRef)
                        (w_repoNameToPrefix w repo) args1 args2))
         \<and> (snd (run w repo visitDataIds la ma mp mr) = Inr () \<longrightarrow>
              tr = tl (downstream_events s safe
                        (arg_or_default la run_default_good_mag_limit)
                        (arg_or_default ma run_default_medianAstromscatterRef)
                        (arg_or_default mp run_default_medianPhotoscatterRef)
                        (arg_or_default mr run_default_matchRef)
                        (w_repoNameToPrefix w repo) args1 args2))"
proof -
  let ?E = "\<lambda>args1 args2. downstream_events s safe
                        (arg_or_default la run_default_good_mag_limit)
                        (arg_or_default ma run_default_medianAstromscatterRef)
                        (arg_or_default mp run_default_medianPhotoscatterRef)
                        (arg_or_default mr run_default_matchRef)
                        (w_repoNameToPrefix w repo) args1 args2"
  from run_trace_prefix [OF load an, of ma mp mr]
  obtain tr args1 args2 where
    t: "fst (run w repo visitDataIds la ma mp mr) = t0 @ tr" and ne: "tr \<noteq> []"
    and p: "prefix tr (?E args1 args2)"
    and f: "snd (run w repo visitDataIds la ma mp mr) = Inr () \<longrightarrow> tr = ?E args1 args2"
    by blast
  obtain x xs where E: "?E args1 args2 = x # xs" by (simp add: downstream_events_def)
  from p ne obtain tr' where tr: "tr = x # tr'" and p': "prefix tr' xs"
    by (auto simp: E prefix_Cons)
  from p' have "set tr' \<subseteq> set xs" by (rule set_mono_prefix)
  with t tr f E show ?thesis
    by (intro exI [of _ tr'] exI [of _ args1] exI [of _ args2]) auto
qed

section \<open>The example repository, evaluated\<close>

lemma example_load:
  "loadAndMatchData example_world ''repo'' [visit1, visit2] None = (example_load_trace, Inr example_loaded)"
  by (simp add: loadAndMatchData_def loadVisit_def io_bind_def io_call_def io_return_def
      io_raise_def io_lift_def example_butler_def example_world_def visit1_def visit2_def
      withMagnitudes_def example_src_def Let_def initial_state_def arg_or_default_def
      default_matchRadius_def example_load_trace_def example_loaded_def example_det_def
      example_matcher_def)

lemma example_analyze:
  "analyzeData example_positionRms example_loaded (Some (Fin 21))
     = Inr (example_struct, example_loaded)"
  by (simp add: analyzeData_def Let_def arg_or_default_def example_loaded_def
      analyzeData_fields_def flagNames_def newSchema_def example_src_schema_def schema_find_def
      where_gv_def goodFilter_def nMatchesRequired_def flagKeys_def example_det_def
      example_src_def safeFilter_def np_mean_def safeMaxExtended_def aggregate_def
      np_std_def np_median_def fsort_def example_positionRms_def example_struct_def)

lemma example_world_sel:
  "w_positionRms example_world = example_positionRms"
  "w_downstream example_world = (\<lambda>c. Inr ())"
  "w_calcAM1 example_world = (\<lambda>gv. Inr (AmArgs []))"
  "w_calcAM2 example_world = (\<lambda>gv. Inr (AmArgs []))"
  "w_repoNameToPrefix example_world = (\<lambda>repo. repo)"
  by (simp_all add: example_world_def)

lemma example_run_returns:
  "snd (run example_world ''repo'' [visit1, visit2] None None None None) = Inr ()"
  by (simp add: run_def Let_def example_load example_analyze example_world_sel
      arg_or_default_def run_default_good_mag_limit_def io_bind_def io_lift_def invoke_def
      io_call_def find_mag_after_analyzeData [OF example_analyze])


lemma example_world_load_sel:
  "w_Butler example_world ''repo'' = Inr example_butler"
  "w_Butler example_world ''elsewhere'' = Inl (ExternalError ''no such repository'')"
  "w_getCcdKeyName example_world = (\<lambda>vId. ''ccd'')"
  "get_src_schema example_butler = Inr example_src_schema"
  "get_calexp_md example_butler visit3 = Inl (ExternalError ''no calexp_md for this visit'')"
  by (simp_all add: example_world_def example_butler_def visit1_def visit2_def visit3_def)



section \<open>Millimagnitudes\<close>



section \<open>Default parameter values\<close>

text \<open>
  Claim C7. Without a \<open>matchRadius\<close> argument the matcher of \<open>loadAndMatchData\<close> has
  the radius of 1 arcsecond. Without a \<open>good_mag_limit\<close> argument \<open>analyzeData\<close>
  behaves as with 19.5 and \<open>run\<close> as with 21.0. \<open>run\<close> passes its own limit on: the
  outcome of \<open>run\<close> is that of \<open>analyzeData\<close> called with the limit of \<open>run\<close> (its
  exception ends \<open>run\<close>; its safe groups are the ones handed to the PA1 and PA2
  functions), and \<open>checkAstrometry\<close> and \<open>checkPhotometry\<close> receive that same limit.
\<close>

theorem default_parameters:
  "(\<forall>m. MultiMatchFinish m \<in> set (fst (loadAndMatchData w repo visitDataIds None)) \<longrightarrow>
        mm_radius m = Angle 1 arcseconds)
   \<and> analyzeData p gv None = analyzeData p gv (Some (Fin 19.5))
   \<and> run w repo visitDataIds None ma mp mr = run w repo visitDataIds (Some (Fin 21.0)) ma mp mr
   \<and> (loadAndMatchData w repo visitDataIds None = (t0, Inr allMatches) \<longrightarrow>
        (\<forall>e. analyzeData (w_positionRms w) allMatches (Some (arg_or_default la (Fin 21.0))) = Inl e
              \<longrightarrow> run w repo visitDataIds la ma mp mr = (t0, Inl e))
      \<and> (\<forall>s safe.
            analyzeData (w_positionRms w) allMatches (Some (arg_or_default la (Fin 21.0)))
              = Inr (s, safe) \<longrightarrow>
            (\<exists>tr. fst (run w repo visitDataIds la ma mp mr) =
                     t0 @ Call (CheckAstrometry (mag s) (map (fscale 1000) (magrms s)) (dist s)
                                  (match s) (arg_or_default la (Fin 21.0))
                                  (arg_or_default ma (Fin 25)) (arg_or_default mr 500)) # tr
                 \<and> (\<forall>c. Call c \<in> set tr \<longrightarrow>
                        call_good_mag_limit c \<in> {None, Some (arg_or_default la (Fin 21.0))}
                      \<and> call_matches c \<in> {None, Some safe})
                 \<and> (snd (run w repo visitDataIds la ma mp mr) = Inr () \<longrightarrow>
                      Call (CheckPhotometry (mag s) (map (fscale 1000) (magrms s)) (dist s)
                              (match s) (arg_or_default la (Fin 21.0))
                              (arg_or_default mp (Fin 25)) (arg_or_default mr 500)) \<in> set tr
                    \<and> Call (PrintPA1 safe ''base_PsfFlux_mag'') \<in> set tr))))"
proof (intro conjI impI allI)
  fix m
  assume "MultiMatchFinish m \<in> set (fst (loadAndMatchData w repo visitDataIds None))"
  from loadAndMatchData_radius [OF this] show "mm_radius m = Angle 1 arcseconds"
    by (simp add: arg_or_default_def default_matchRadius_def)
next
  show "analyzeData p gv None = analyzeData p gv (Some (Fin 19.5))"
    by (simp add: analyzeData_def arg_or_default_def analyzeData_default_good_mag_limit_def)
next
  show "run w repo visitDataIds None ma mp mr = run w repo visitDataIds (Some (Fin 21.0)) ma mp mr"
    by (simp add: run_def arg_or_default_def run_default_good_mag_limit_def)
next
  fix e
  assume load: "loadAndMatchData w repo visitDataIds None = (t0, Inr allMatches)"
    and "analyzeData (w_positionRms w) allMatches (Some (arg_or_default la (Fin 21.0))) = Inl e"
  then show "run w repo visitDataIds la ma mp mr = (t0, Inl e)"
    using run_analyze_fails [OF load, where la = la and e = e and ma = ma and mp = mp and mr = mr]
    by (simp add: run_default_good_mag_limit_def)
next
  fix s safe
  assume load: "loadAndMatchData w repo visitDataIds None = (t0, Inr allMatches)"
    and an0: "analyzeData (w_positionRms w) allMatches (Some (arg_or_default la (Fin 21.0)))
              = Inr (s, safe)"
  from an0 have an: "analyzeData (w_positionRms w) allMatches
               (Some (arg_or_default la run_default_good_mag_limit)) = Inr (s, safe)"
    by (simp add: run_default_good_mag_limit_def)
  let ?E = "\<lambda>args1 args2. downstream_events s safe
                        (arg_or_default la run_default_good_mag_limit)
                        (arg_or_default ma run_default_medianAstromscatterRef)
                        (arg_or_default mp run_default_medianPhotoscatterRef)
                        (arg_or_default mr run_default_matchRef)
                        (w_repoNameToPrefix w repo) args1 args2"
  from run_trace_calls [OF load an, of ma mp mr]
  obtain tr args1 args2 where
    "fst (run w repo visitDataIds la ma mp mr) = t0 @ hd (?E args1 args2) # tr"
    "set tr \<subseteq> set (tl (?E args1 args2))"
    "snd (run w repo visitDataIds la ma mp mr) = Inr () \<longrightarrow> tr = tl (?E args1 args2)"
    by blast
  then show "\<exists>tr. fst (run w repo visitDataIds la ma mp mr) =
                     t0 @ Call (CheckAstrometry (mag s) (map (fscale 1000) (magrms s)) (dist s)
                                  (match s) (arg_or_default la (Fin 21.0))
                                  (arg_or_default ma (Fin 25)) (arg_or_default mr 500)) # tr
                 \<and> (\<forall>c. Call c \<in> set tr \<longrightarrow>
                        call_good_mag_limit c \<in> {None, Some (arg_or_default la (Fin 21.0))}
                      \<and> call_matches c \<in> {None, Some safe})
                 \<and> (snd (run w repo visitDataIds la ma mp mr) = Inr () \<longrightarrow>
                      Call (CheckPhotometry (mag s) (map (fscale 1000) (magrms s)) (dist s)
                              (match s) (arg_or_default la (Fin 21.0))
                              (arg_or_default mp (Fin 25)) (arg_or_default mr 500)) \<in> set tr
                    \<and> Call (PrintPA1 safe ''base_PsfFlux_mag'') \<in> set tr)"
    by (intro exI [of _ tr])
       (auto simp: downstream_events_def mmag_def run_default_good_mag_limit_def
          run_default_medianAstromscatterRef_def run_default_medianPhotoscatterRef_def
          run_default_matchRef_def)
qed

text \<open>On the example repository, with every argument of \<open>run\<close> left to its default.\<close>

theorem default_parameters_witness:
  "MultiMatchFinish example_matcher
     \<in> set (fst (loadAndMatchData example_world ''repo'' [visit1, visit2] None))
   \<and> mm_radius example_matcher = Angle 1 arcseconds
   \<and> (\<exists>tr. fst (run example_world ''repo'' [visit1, visit2] None None None None) =
             example_load_trace
             @ Call (CheckAstrometry [Fin 19, Fin 20.5] [Fin 1000, Fin 1000] [Fin 0, Fin 0] 2
                       (Fin 21) (Fin 25) 500) # tr
         \<and> Call (CheckPhotometry [Fin 19, Fin 20.5] [Fin 1000, Fin 1000] [Fin 0, Fin 0] 2
                       (Fin 21) (Fin 25) 500) \<in> set tr
         \<and> Call (PrintPA1 example_loaded ''base_PsfFlux_mag'') \<in> set tr)"
proof -
  have m: "MultiMatchFinish example_matcher
     \<in> set (fst (loadAndMatchData example_world ''repo'' [visit1, visit2] None))"
    by (simp add: example_load example_load_trace_def)
  have an: "analyzeData (w_positionRms example_world) example_loaded
              (Some (arg_or_default None (Fin 21.0))) = Inr (example_struct, example_loaded)"
    by (simp add: example_world_sel arg_or_default_def example_analyze)
  note t = default_parameters [of example_world "''repo''" "[visit1, visit2]" undefined
             example_loaded None None None example_load_trace example_loaded None]
  from t m have r: "mm_radius example_matcher = Angle 1 arcseconds" by blast
  note t4 = t [THEN conjunct2, THEN conjunct2, THEN conjunct2]
  from t4 example_load an example_run_returns
  have "\<exists>tr. fst (run example_world ''repo'' [visit1, visit2] None None None None) =
             example_load_trace
             @ Call (CheckAstrometry [Fin 19, Fin 20.5] [Fin 1000, Fin 1000] [Fin 0, Fin 0] 2
                       (Fin 21) (Fin 25) 500) # tr
         \<and> Call (CheckPhotometry [Fin 19, Fin 20.5] [Fin 1000, Fin 1000] [Fin 0, Fin 0] 2
                       (Fin 21) (Fin 25) 500) \<in> set tr
         \<and> Call (PrintPA1 example_loaded ''base_PsfFlux_mag'') \<in> set tr"
    by (simp add: example_struct_def arg_or_default_def) blast
  with m r show ?thesis by blast
qed

section \<open>No error recovery in \<open>loadAndMatchData\<close>\<close>





section \<open>The empty list of visits\<close>

text \<open>
  Claim C10, as amended. \<open>loadAndMatchData\<close> constructs the butler on the repository
  first and reads \<open>visitDataIds[0]\<close> next, before any dataset is fetched and before any
  matching. For the empty list the butler construction is therefore the only external call,
  and the call fails: with IndexError when the construction succeeded, and with the
  exception of the construction otherwise. \<open>run\<close> fails in the same way. A non-empty
  \<open>visitDataIds\<close> is a precondition of both.
\<close>

theorem loadAndMatchData_empty_visits:
  "loadAndMatchData w repo [] ra =
     ([ButlerOpen repo], Inl (case w_Butler w repo of Inl e \<Rightarrow> e | Inr b \<Rightarrow> IndexError))
   \<and> run w repo [] la ma mp mr =
     ([ButlerOpen repo], Inl (case w_Butler w repo of Inl e \<Rightarrow> e | Inr b \<Rightarrow> IndexError))"
proof -
  have 1: "loadAndMatchData w repo [] r =
     ([ButlerOpen repo], Inl (case w_Butler w repo of Inl e \<Rightarrow> e | Inr b \<Rightarrow> IndexError))" for r
    by (cases "w_Butler w repo")
       (simp_all add: loadAndMatchData_Butler_fails loadAndMatchData_empty)
  from 1 [of None] have "run w repo [] la ma mp mr =
     ([ButlerOpen repo], Inl (case w_Butler w repo of Inl e \<Rightarrow> e | Inr b \<Rightarrow> IndexError))"
    by (rule run_load_fails)
  with 1 show ?thesis by simp
qed

text \<open>
  The claim as it was stated (the call fails with an index error before the data repository
  is contacted) fails on the example world: the butler has been opened when the index
  error is raised, and on a repository that cannot be opened the exception is not an index
  error.
\<close>

theorem loadAndMatchData_empty_counterexample:
  "loadAndMatchData example_world ''repo'' [] None = ([ButlerOpen ''repo''], Inl IndexError)
   \<and> fst (loadAndMatchData example_world ''repo'' [] None) \<noteq> []
   \<and> loadAndMatchData example_world ''elsewhere'' [] None
       = ([ButlerOpen ''elsewhere''], Inl (ExternalError ''no such repository''))
   \<and> snd (loadAndMatchData example_world ''elsewhere'' [] None) \<noteq> Inl IndexError"
  by (simp add: loadAndMatchData_Butler_fails loadAndMatchData_empty example_world_load_sel)

section \<open>No database, no measurement\<close>

lemma getPpdb_none_aux:
  shows "(\<forall>c. co = Some c \<longrightarrow> \<not> contains_PpdbConfig c) \<longrightarrow> getPpdb co = None"
    and "\<not> fields_contain fs \<longrightarrow> getPpdb_values fs = None"
    and "\<not> field_contains f \<longrightarrow> getPpdb_field f = None"
    and "(\<forall>b a v. cfo = Some (Configurable b a v) \<longrightarrow> \<not> b \<and> \<not> contains_PpdbConfig v)
           \<longrightarrow> getPpdbFromConfigurableField cfo = None"
    and "(\<forall>cs. cso = Some cs \<longrightarrow> \<not> configs_contain cs) \<longrightarrow> getPpdbFromConfigIterable cso = None"
    and "\<not> configs_contain cs \<longrightarrow> getPpdb_each cs = None"
proof (induction co and fs and f and cfo and cso and cs
       rule: getPpdb_getPpdb_values_getPpdb_field_getPpdbFromConfigurableField_getPpdbFromConfigIterable_getPpdb_each.induct)
  case (8 active)
  then show ?case by (cases active) auto
next
  case (9 active)
  then show ?case by (cases active) auto
next
  case (7 c)
  then show ?case by (cases c) auto
qed (auto split: option.splits)

lemma getPpdb_None: "getPpdb None = None"
  by simp

lemma getPpdb_no_PpdbConfig: "\<not> contains_PpdbConfig c \<Longrightarrow> getPpdb (Some c) = None"
  using getPpdb_none_aux(1) [of "Some c"] by simp

lemma adaptArgsAndRun_no_db:
  assumes "lookup outputDataId ''measurement'' = Inr dataId"
    and "lookup inputData ''dbInfo'' = Inr dbInfo"
    and "first_or_self dbInfo = Inr cfg"
    and "dbLoader_run self cfg = Inr loaded"
    and "ppdb loaded = None"
  shows "adaptArgsAndRun self inputData inputDataIds outputDataId
           = ([DbLoaderRun cfg], Inr \<lparr>measurement = None\<rparr>)"
  using assms
  by (simp add: adaptArgsAndRun_def io_bind_def io_lift_def io_call_def io_return_def)

lemma adaptArgsAndRun_trace:
  assumes "adaptArgsAndRun self inputData inputDataIds outputDataId = (t, r)"
  shows "(\<forall>h d. MakeMeasurement h d \<in> set t \<longrightarrow>
            (\<exists>cfg loaded. DbLoaderRun cfg \<in> set t \<and> dbLoader_run self cfg = Inr loaded
                \<and> ppdb loaded = Some h))"
    and "(\<forall>m d. AddStandardMetadata m d \<in> set t \<longrightarrow>
            (\<exists>h. MakeMeasurement h d \<in> set t \<and> makeMeasurement self h d = Inr (Some m)))"
  using assms
  by (auto simp: adaptArgsAndRun_def io_bind_def io_lift_def io_call_def io_return_def Let_def
           split: sum.splits option.splits)

text \<open>
  Claim C9. The default loader finds no database when the config it is given is \<open>None\<close>
  or contains no \<open>PpdbConfig\<close> anywhere. When the loader of a task returns no database,
  \<open>adaptArgsAndRun\<close> calls neither \<open>makeMeasurement\<close> nor \<open>addStandardMetadata\<close> (the
  call of the loader is its only external call) and returns the struct whose measurement
  is \<open>None\<close>. In every run, \<open>makeMeasurement\<close> is called only on a database the loader
  returned, and \<open>addStandardMetadata\<close> only on a measurement that \<open>makeMeasurement\<close>
  returned.
\<close>

theorem adaptArgsAndRun_no_database:
  "((config = None \<or> (\<exists>c. config = Some c \<and> \<not> contains_PpdbConfig c)) \<longrightarrow>
       ppdb (ConfigPpdbLoader_run config) = None)
   \<and> (lookup outputDataId ''measurement'' = Inr dataId
      \<and> lookup inputData ''dbInfo'' = Inr dbInfo
      \<and> first_or_self dbInfo = Inr cfg
      \<and> dbLoader_run self cfg = Inr loaded
      \<and> ppdb loaded = None \<longrightarrow>
        adaptArgsAndRun self inputData inputDataIds outputDataId
          = ([DbLoaderRun cfg], Inr \<lparr>measurement = None\<rparr>))
   \<and> (adaptArgsAndRun self inputData inputDataIds outputDataId = (t, r) \<longrightarrow>
        (\<forall>h d. MakeMeasurement h d \<in> set t \<longrightarrow>
           (\<exists>cfg loaded. DbLoaderRun cfg \<in> set t \<and> dbLoader_run self cfg = Inr loaded
               \<and> ppdb loaded = Some h))
      \<and> (\<forall>m d. AddStandardMetadata m d \<in> set t \<longrightarrow>
           (\<exists>h. MakeMeasurement h d \<in> set t \<and> makeMeasurement self h d = Inr (Some m))))"
proof (intro conjI impI)
  assume "config = None \<or> (\<exists>c. config = Some c \<and> \<not> contains_PpdbConfig c)"
  then show "ppdb (ConfigPpdbLoader_run config) = None"
    by (auto simp: ConfigPpdbLoader_run_def getPpdb_no_PpdbConfig)
next
  assume "lookup outputDataId ''measurement'' = Inr dataId
      \<and> lookup inputData ''dbInfo'' = Inr dbInfo
      \<and> first_or_self dbInfo = Inr cfg
      \<and> dbLoader_run self cfg = Inr loaded
      \<and> ppdb loaded = None"
  then have "lookup outputDataId ''measurement'' = Inr dataId"
    and "lookup inputData ''dbInfo'' = Inr dbInfo"
    and "first_or_self dbInfo = Inr cfg"
    and "dbLoader_run self cfg = Inr loaded"
    and "ppdb loaded = None"
    by simp_all
  then show "adaptArgsAndRun self inputData inputDataIds outputDataId
          = ([DbLoaderRun cfg], Inr \<lparr>measurement = None\<rparr>)"
    by (rule adaptArgsAndRun_no_db)
next
  assume a: "adaptArgsAndRun self inputData inputDataIds outputDataId = (t, r)"
  show "\<forall>h d. MakeMeasurement h d \<in> set t \<longrightarrow>
           (\<exists>cfg loaded. DbLoaderRun cfg \<in> set t \<and> dbLoader_run self cfg = Inr loaded
               \<and> ppdb loaded = Some h)"
    by (rule adaptArgsAndRun_trace(1) [OF a])
  show "\<forall>m d. AddStandardMetadata m d \<in> set t \<longrightarrow>
           (\<exists>h. MakeMeasurement h d \<in> set t \<and> makeMeasurement self h d = Inr (Some m))"
    by (rule adaptArgsAndRun_trace(2) [OF a])
qed

text \<open>The example task on a config without a database, on no config, and on a config with
  a database.\<close>

lemma example_task_sel:
  "dbLoader_run example_task = (\<lambda>config. Inr (ConfigPpdbLoader_run config))"
  "makeMeasurement example_task = (\<lambda>db dataId. Inr (Some example_measurement))"
  by (simp_all add: example_task_def)

lemma example_task_with_db:
  "PpdbMetricTask_run example_task (DatasetList [Some example_config_with_db])
     = ([DbLoaderRun (Some example_config_with_db),
         MakeMeasurement (Ppdb ''sqlite:///ppdb.db'') [],
         AddStandardMetadata example_measurement []],
        Inr \<lparr>measurement =
               Some (example_measurement\<lparr>extras := [(''estimator'', ''example_task'')]\<rparr>)\<rparr>)"
  by (simp add: PpdbMetricTask_run_def adaptArgsAndRun_def io_bind_def io_lift_def io_call_def
        io_return_def lookup_def example_task_def ConfigPpdbLoader_run_def
        example_config_with_db_def example_measurement_def)

theorem adaptArgsAndRun_no_database_witness:
  "ppdb (ConfigPpdbLoader_run (Some example_config_without_db)) = None
   \<and> PpdbMetricTask_run example_task (Dataset (Some example_config_without_db))
       = ([DbLoaderRun (Some example_config_without_db)], Inr \<lparr>measurement = None\<rparr>)
   \<and> PpdbMetricTask_run example_task (Dataset None)
       = ([DbLoaderRun None], Inr \<lparr>measurement = None\<rparr>)
   \<and> (\<exists>h. makeMeasurement example_task h [] = Inr (Some example_measurement)
          \<and> ppdb (ConfigPpdbLoader_run (Some example_config_with_db)) = Some h)"
proof -
  let ?in = "\<lambda>d. [(''dbInfo'', d)]"
  let ?ids = "[(''dbInfo'', [])] :: (string \<times> dataId) list"
  let ?out = "[(''measurement'', [])] :: (string \<times> dataId) list"
  have nc: "\<not> contains_PpdbConfig example_config_without_db"
    by (simp add: example_config_without_db_def)
  note T1 = adaptArgsAndRun_no_database
     [of "Some example_config_without_db" ?out "[]"
         "?in (Dataset (Some example_config_without_db))"
         "Dataset (Some example_config_without_db)" "Some example_config_without_db"
         example_task "ConfigPpdbLoader_run (Some example_config_without_db)" ?ids]
  from T1 nc have 1: "ppdb (ConfigPpdbLoader_run (Some example_config_without_db)) = None"
    by blast
  from T1 1 have 2: "PpdbMetricTask_run example_task (Dataset (Some example_config_without_db))
       = ([DbLoaderRun (Some example_config_without_db)], Inr \<lparr>measurement = None\<rparr>)"
    by (simp add: PpdbMetricTask_run_def lookup_def example_task_sel)
  note T2 = adaptArgsAndRun_no_database
     [of None ?out "[]" "?in (Dataset None)" "Dataset None" None
         example_task "ConfigPpdbLoader_run None" ?ids]
  from T2 have 3: "PpdbMetricTask_run example_task (Dataset None)
       = ([DbLoaderRun None], Inr \<lparr>measurement = None\<rparr>)"
    by (simp add: PpdbMetricTask_run_def lookup_def example_task_sel)
  note T3 = adaptArgsAndRun_no_database
     [of None ?out "[]" "?in (DatasetList [Some example_config_with_db])" _ _
         example_task _ ?ids, THEN conjunct2, THEN conjunct2]
  from T3 example_task_with_db [unfolded PpdbMetricTask_run_def]
  have 4: "\<exists>h. makeMeasurement example_task h [] = Inr (Some example_measurement)
          \<and> ppdb (ConfigPpdbLoader_run (Some example_config_with_db)) = Some h"
    by (fastforce simp: example_task_sel)
  from 1 2 3 4 show ?thesis by blast
qed

end
